theory Spec2Isabelle
  imports Complex_Main "HOL-Library.AList" "HOL-Library.Word"
begin

section \<open>The web scraper of \<open>web_scraper_20260212_124744/src/main.py\<close>\<close>

text \<open>
  The module fetches pages with \<open>urllib\<close>, feeds them to a subclass of the standard
  \<open>html.parser.HTMLParser\<close> and writes the per-URL results as JSON or CSV. The functions
  of the module are embedded below, one HOL function per Python function. What the module
  calls but does not define (the network, the clock, the tokenizer of the base class, the
  file system) is an explicit environment \<open>env\<close> and an explicit \<open>world\<close> that every
  effectful function takes and returns.

  Conventions: Python \<open>str\<close> is \<open>string\<close> (code points below 256), \<open>bytes\<close> is a list of
  8-bit words, \<open>int\<close> is \<open>int\<close>, \<open>float\<close> is \<open>real\<close> (rounding is not modelled), \<open>None\<close>
  is \<open>None\<close>, a raised exception is the \<open>Inl\<close> of a sum. Only exceptions below
  \<open>Exception\<close> are modelled; an asynchronous \<open>KeyboardInterrupt\<close> or \<open>SystemExit\<close> is not.
\<close>

subsection \<open>Values\<close>

type_synonym bytes = "8 word list"

datatype exn_class =
  URLError | HTTPError | ValueError | TypeError | AssertionError | Exception | OtherException

text \<open>An exception object: its class and the text \<open>str(e)\<close>.\<close>

datatype exn = Raise exn_class string

fun str_exn :: "exn \<Rightarrow> string" where
  "str_exn (Raise c m) = m"

text \<open>
  \<open>except (urllib.error.URLError, urllib.error.HTTPError)\<close>: the two classes the retry loop
  of \<open>HTTPClient.fetch\<close> catches.
\<close>

fun retriable :: "exn \<Rightarrow> bool" where
  "retriable (Raise c m) = (c = URLError \<or> c = HTTPError)"

text \<open>\<open>str(n)\<close> of an \<open>int\<close>, as an f-string prints it.\<close>

fun str_nat :: "nat \<Rightarrow> string" where
  "str_nat n = (if n < 10 then [char_of (48 + n)]
                else str_nat (n div 10) @ [char_of (48 + n mod 10)])"

declare str_nat.simps [simp del]

definition str_int :: "int \<Rightarrow> string" where
  "str_int i = (if i < 0 then CHR ''-'' # str_nat (nat (- i)) else str_nat (nat i))"

text \<open>\<open>str.strip()\<close>: the white space of \<open>str.isspace\<close> among the code points below 256.\<close>

definition isspace :: "char \<Rightarrow> bool" where
  "isspace c = (of_char c \<in> {9, 10, 11, 12, 13, 28, 29, 30, 31, 32, 133, 160 :: nat})"

definition strip :: "string \<Rightarrow> string" where
  "strip s = rev (dropWhile isspace (rev (dropWhile isspace s)))"

subsection \<open>The records of the module\<close>

record ScraperConfig =
  user_agent :: string
  delay :: real
  max_retries :: int
  timeout :: int
  output_format :: string
  output_path :: string

text \<open>
  \<open>ExtractedData\<close>. The base parser hands an attribute without a value (\<open><a href>\<close>) to
  \<open>handle_starttag\<close> as \<open>(name, None)\<close>, so a link and a meta entry may be \<open>None\<close> at run
  time, whatever the annotation \<open>List[str]\<close> says. \<open>meta\<close> is a \<open>dict\<close>: an association
  list with the update of \<open>AList\<close> (a new key goes last, an old key keeps its place).
\<close>

record ExtractedData =
  title :: string
  links :: "string option list"
  meta :: "(string option \<times> string option) list"

record ScrapingResult =
  url :: string
  status :: "int option"
  data :: "ExtractedData option"
  error :: "string option"

record HTTPClient =
  config :: ScraperConfig
  last_request_time :: real

text \<open>
  The parser object: the three attributes of \<open>__init__\<close> and, from the base class, the
  text of the most recently opened start tag (what \<open>get_starttag_text()\<close> returns).
\<close>

record HTMLParser = ExtractedData +
  starttag_text :: "string option"

subsection \<open>The environment and the world\<close>

text \<open>\<open>urllib.request.Request(url, headers=headers)\<close>.\<close>

record Request =
  full_url :: string
  headers :: "(string \<times> string) list"

text \<open>
  One network attempt, \<open>with urlopen(req, timeout=...) as response: return response.read()\<close>:
  the bytes read, or the exception that \<open>urlopen\<close> or \<open>read\<close> raises.
\<close>

datatype attempt = Response bytes | Fails exn

text \<open>
  The callbacks that one \<open>feed\<close> of the base parser makes, in document order. Before
  \<open>handle_starttag\<close> the base class stores the source text of the tag (\<open>StartTag\<close> carries
  it first, then the lower-cased name and the attributes). End tags and comments reach
  handlers that this subclass does not override.
\<close>

datatype event =
    StartTag string string "(string \<times> string option) list"
  | Data string
  | EndTag string
  | Comment string

datatype log_level = ERROR | INFO

text \<open>What a file holds: what was written to it, in order.\<close>

datatype cell = CellNone | CellInt int | CellStr string

datatype written = JsonDump "ScrapingResult list" | CsvRow "cell list"

text \<open>
  The environment: \<open>Request_raises\<close> is the \<open>ValueError\<close> of the \<open>Request\<close> constructor on a URL
  without a scheme, if any; \<open>urlopen\<close> gives, for the request, the timeout and the number of
  network attempts made so far in the run, the time the attempt takes and how it ends;
  \<open>oversleep\<close> is how much longer than asked the n-th \<open>time.sleep\<close> lasts; \<open>tokens\<close> is
  what the base parser does on a \<open>str\<close>: the callbacks it makes, in order, and the exception
  it then raises, if any (the tolerant parser still raises \<open>AssertionError\<close> on some
  malformed declarations, such as the marked section \<open><![foo[bar]]>\<close>); \<open>open_raises\<close> is the
  \<open>OSError\<close> of \<open>open(path, "w")\<close>, if any.
\<close>

record env =
  Request_raises :: "string \<Rightarrow> exn option"
  urlopen :: "Request \<Rightarrow> int \<Rightarrow> nat \<Rightarrow> real \<times> attempt"
  oversleep :: "nat \<Rightarrow> real"
  tokens :: "string \<Rightarrow> event list \<times> exn option"
  open_raises :: "string \<Rightarrow> exn option"

text \<open>
  What the run does to the outside, in order: a \<open>time.sleep(x)\<close>, or a network attempt
  for a URL with the clock time at which it is dispatched.
\<close>

datatype action = Slept real | Sent string real

text \<open>
  The world: the clock that \<open>time.time()\<close> reads, the sleeps and network attempts so far,
  the log records, the files.
\<close>

record world =
  now :: real
  trace :: "action list"
  logged :: "(log_level \<times> string) list"
  files :: "string \<rightharpoonup> written list"

fun sleeps_of :: "action list \<Rightarrow> real list" where
  "sleeps_of [] = []"
| "sleeps_of (Slept x # as) = x # sleeps_of as"
| "sleeps_of (Sent u t # as) = sleeps_of as"

fun requests_of :: "action list \<Rightarrow> (string \<times> real) list" where
  "requests_of [] = []"
| "requests_of (Slept x # as) = requests_of as"
| "requests_of (Sent u t # as) = (u, t) # requests_of as"

definition sleeps :: "world \<Rightarrow> real list" where
  "sleeps w = sleeps_of (trace w)"

definition requests :: "world \<Rightarrow> (string \<times> real) list" where
  "requests w = requests_of (trace w)"

text \<open>
  \<open>time.sleep(x)\<close>. Both calls of the module pass a positive \<open>x\<close> (\<open>delay - elapsed\<close> under
  \<open>elapsed < delay\<close>, and \<open>2 ** attempt\<close>), so its \<open>ValueError\<close> on a negative argument is
  not a branch.
\<close>

definition sleep :: "env \<Rightarrow> real \<Rightarrow> world \<Rightarrow> world" where
  "sleep e x w = w\<lparr>now := now w + x + oversleep e (length (sleeps w)),
                   trace := trace w @ [Slept x]\<rparr>"

subsection \<open>\<open>HTTPClient\<close>\<close>

definition HTTPClient_init :: "ScraperConfig \<Rightarrow> HTTPClient" where
  "HTTPClient_init cfg = \<lparr>config = cfg, last_request_time = 0\<rparr>"

text \<open>\<open>HTTPClient._enforce_delay\<close> (a HOL name cannot start with an underscore).\<close>

definition enforce_delay :: "env \<Rightarrow> HTTPClient \<Rightarrow> world \<Rightarrow> HTTPClient \<times> world" where
  "enforce_delay e c w =
     (let elapsed = now w - last_request_time c;
          w1 = (if elapsed < delay (config c)
                then sleep e (delay (config c) - elapsed) w else w)
      in (c\<lparr>last_request_time := now w1\<rparr>, w1))"

text \<open>The network attempt inside the \<open>try\<close>: it is recorded with its dispatch time.\<close>

definition dispatch :: "env \<Rightarrow> Request \<Rightarrow> int \<Rightarrow> world \<Rightarrow> attempt \<times> world" where
  "dispatch e req tmo w =
     (let (dt, a) = urlopen e req tmo (length (requests w))
      in (a, w\<lparr>now := now w + dt, trace := trace w @ [Sent (full_url req) (now w)]\<rparr>))"

text \<open>
  The body of \<open>for attempt in range(self.config.max_retries)\<close>, by recursion over the
  values of \<open>attempt\<close> still to come; after the last one the loop falls through to
  \<open>raise Exception("Unexpected error in fetch")\<close>.
\<close>

fun fetch_loop ::
  "env \<Rightarrow> Request \<Rightarrow> nat list \<Rightarrow> HTTPClient \<Rightarrow> world \<Rightarrow> (exn + bytes) \<times> HTTPClient \<times> world"
where
  "fetch_loop e req [] c w = (Inl (Raise Exception ''Unexpected error in fetch''), c, w)"
| "fetch_loop e req (attempt # rest) c w =
     (let (c1, w1) = enforce_delay e c w;
          (a, w2) = dispatch e req (timeout (config c1)) w1
      in case a of
           Response b \<Rightarrow> (Inr b, c1, w2)
         | Fails x \<Rightarrow>
             if retriable x then
               if int attempt = max_retries (config c1) - 1
               then (Inl (Raise Exception
                       (''Failed after '' @ str_int (max_retries (config c1))
                          @ '' attempts: '' @ str_exn x)), c1, w2)
               else fetch_loop e req rest c1 (sleep e (2 ^ attempt) w2)
             else (Inl x, c1, w2))"

text \<open>
  The request object that \<open>fetch\<close> builds before the loop, with the header as the source
  passes it to the constructor.
\<close>

definition Request_init :: "ScraperConfig \<Rightarrow> string \<Rightarrow> Request" where
  "Request_init cfg u = \<lparr>full_url = u, headers = [(''User-Agent'', user_agent cfg)]\<rparr>"

definition fetch ::
  "env \<Rightarrow> HTTPClient \<Rightarrow> string \<Rightarrow> world \<Rightarrow> (exn + bytes) \<times> HTTPClient \<times> world"
where
  "fetch e c u w =
     (case Request_raises e u of
        Some x \<Rightarrow> (Inl x, c, w)
      | None \<Rightarrow>
          fetch_loop e (Request_init (config c) u) [0 ..< nat (max_retries (config c))] c w)"

subsection \<open>\<open>HTMLParser\<close> and \<open>DataExtractor\<close>\<close>

definition HTMLParser_init :: HTMLParser where
  "HTMLParser_init = \<lparr>title = '''', links = [], meta = [], starttag_text = None\<rparr>"

text \<open>\<open>dict(attrs)\<close>: a later pair with the same name replaces the value of the earlier one.\<close>

definition dict :: "('k \<times> 'v) list \<Rightarrow> ('k \<times> 'v) list" where
  "dict kvs = foldl (\<lambda>d (k, v). AList.update k v d) [] kvs"

definition handle_starttag ::
  "string \<Rightarrow> (string \<times> string option) list \<Rightarrow> HTMLParser \<Rightarrow> HTMLParser"
where
  "handle_starttag tag attrs p =
     (if tag = ''a'' then
        p\<lparr>links := links p @ map snd (filter (\<lambda>(attr, v). attr = ''href'') attrs)\<rparr>
      else if tag = ''meta'' then
        (let meta_data = dict attrs
         in case map_of meta_data ''name'' of
              None \<Rightarrow> p
            | Some n \<Rightarrow>
                (case map_of meta_data ''content'' of
                   None \<Rightarrow> p
                 | Some c \<Rightarrow> p\<lparr>meta := AList.update n c (meta p)\<rparr>))
      else p)"

definition handle_data :: "string \<Rightarrow> HTMLParser \<Rightarrow> HTMLParser" where
  "handle_data d p = (if starttag_text p = Some ''<title>'' then p\<lparr>title := strip d\<rparr> else p)"

definition get_extracted_data :: "HTMLParser \<Rightarrow> ExtractedData" where
  "get_extracted_data p = \<lparr>title = title p, links = links p, meta = meta p\<rparr>"

text \<open>
  What the base class does at one event: a start tag first becomes the text that
  \<open>get_starttag_text()\<close> returns, and stays so until the next start tag.
\<close>

fun callback :: "event \<Rightarrow> HTMLParser \<Rightarrow> HTMLParser" where
  "callback (StartTag raw tag attrs) p = handle_starttag tag attrs (p\<lparr>starttag_text := Some raw\<rparr>)"
| "callback (Data d) p = handle_data d p"
| "callback (EndTag tag) p = p"
| "callback (Comment c) p = p"

text \<open>What \<open>extract\<close> is handed: a \<open>str\<close>, as annotated, or the \<open>bytes\<close> that \<open>fetch\<close> returns.\<close>

datatype content = Str string | Bytes bytes

text \<open>
  \<open>parser.feed(html)\<close>. The base class starts with \<open>self.rawdata = self.rawdata + data\<close>,
  where \<open>rawdata\<close> is a \<open>str\<close>: on \<open>bytes\<close> the concatenation raises this \<open>TypeError\<close>.
\<close>

definition bytes_type_error :: exn where
  "bytes_type_error =
     Raise TypeError (''can only concatenate str (not '' @ [CHR 0x22] @ ''bytes'' @ [CHR 0x22]
                        @ '') to str'')"

definition feed :: "env \<Rightarrow> content \<Rightarrow> HTMLParser \<Rightarrow> exn + HTMLParser" where
  "feed e html p =
     (case html of
        Str s \<Rightarrow>
          (case tokens e s of
             (evs, None) \<Rightarrow> Inr (foldl (\<lambda>q ev. callback ev q) p evs)
           | (evs, Some x) \<Rightarrow> Inl x)
      | Bytes b \<Rightarrow> Inl bytes_type_error)"

text \<open>\<open>DataExtractor.extract\<close>; the rules are accepted and never consulted.\<close>

definition DataExtractor_extract ::
  "env \<Rightarrow> content \<Rightarrow> (string \<times> string) list \<Rightarrow> exn + ExtractedData"
where
  "DataExtractor_extract e html rules =
     (case feed e html HTMLParser_init of
        Inl x \<Rightarrow> Inl x
      | Inr p \<Rightarrow> Inr (get_extracted_data p))"

definition extract_data ::
  "env \<Rightarrow> content \<Rightarrow> (string \<times> string) list \<Rightarrow> exn + ExtractedData"
where
  "extract_data e html rules = DataExtractor_extract e html rules"

subsection \<open>\<open>Logger\<close> and \<open>scrape_url\<close>\<close>

definition log_error :: "string \<Rightarrow> world \<Rightarrow> world" where
  "log_error m w = w\<lparr>logged := logged w @ [(ERROR, m)]\<rparr>"

definition log_info :: "string \<Rightarrow> world \<Rightarrow> world" where
  "log_info m w = w\<lparr>logged := logged w @ [(INFO, m)]\<rparr>"

text \<open>The \<open>except Exception as e\<close> branch of \<open>scrape_url\<close>.\<close>

definition on_exception :: "ScrapingResult \<Rightarrow> exn \<Rightarrow> world \<Rightarrow> ScrapingResult \<times> world" where
  "on_exception result x w =
     (result\<lparr>error := Some (str_exn x)\<rparr>,
      log_error (''Failed to scrape '' @ url result @ '': '' @ str_exn x) w)"

definition scrape_url :: "env \<Rightarrow> string \<Rightarrow> ScraperConfig \<Rightarrow> world \<Rightarrow> ScrapingResult \<times> world" where
  "scrape_url e u cfg w =
     (let result = \<lparr>url = u, status = None, data = None, error = None\<rparr>;
          client = HTTPClient_init cfg;
          (r, client1, w1) = fetch e client u w
      in case r of
           Inl x \<Rightarrow> on_exception result x w1
         | Inr html \<Rightarrow>
             (let result1 = result\<lparr>status := Some 200\<rparr>
              in case DataExtractor_extract e (Bytes html) [] of
                   Inl x \<Rightarrow> on_exception result1 x w1
                 | Inr d \<Rightarrow> (result1\<lparr>data := Some d\<rparr>, w1)))"

subsection \<open>\<open>ResultHandler\<close>\<close>

text \<open>\<open>open(path, "w")\<close> truncates the file; a write appends to what the file holds.\<close>

definition open_w :: "env \<Rightarrow> string \<Rightarrow> world \<Rightarrow> exn + world" where
  "open_w e path w =
     (case open_raises e path of
        Some x \<Rightarrow> Inl x
      | None \<Rightarrow> Inr (w\<lparr>files := (files w)(path \<mapsto> [])\<rparr>))"

definition write_file :: "string \<Rightarrow> written \<Rightarrow> world \<Rightarrow> world" where
  "write_file path item w =
     w\<lparr>files := (files w)(path \<mapsto> (case files w path of None \<Rightarrow> [item] | Some old \<Rightarrow> old @ [item]))\<rparr>"

text \<open>
  \<open>", ".join(xs)\<close>: \<open>str.join\<close> raises \<open>TypeError\<close> at the first item that is not a \<open>str\<close>.
\<close>

fun str_items :: "nat \<Rightarrow> string option list \<Rightarrow> exn + string list" where
  "str_items i [] = Inr []"
| "str_items i (None # xs) =
     Inl (Raise TypeError
            (''sequence item '' @ str_nat i @ '': expected str instance, NoneType found''))"
| "str_items i (Some s # xs) =
     (case str_items (Suc i) xs of Inl x \<Rightarrow> Inl x | Inr ss \<Rightarrow> Inr (s # ss))"

fun intercalate :: "string \<Rightarrow> string list \<Rightarrow> string" where
  "intercalate sep [] = ''''"
| "intercalate sep [s] = s"
| "intercalate sep (s # t # ss) = s @ sep @ intercalate sep (t # ss)"

definition join :: "string \<Rightarrow> string option list \<Rightarrow> exn + string" where
  "join sep xs = (case str_items 0 xs of Inl x \<Rightarrow> Inl x | Inr ss \<Rightarrow> Inr (intercalate sep ss))"

text \<open>The truth value of an \<open>Optional[str]\<close>: \<open>None\<close> and the empty string are false.\<close>

definition truthy :: "string option \<Rightarrow> bool" where
  "truthy v = (case v of None \<Rightarrow> False | Some s \<Rightarrow> s \<noteq> [])"

text \<open>
  The list \<open>row\<close> of the CSV branch. A \<open>data\<close> that is not \<open>None\<close> is a dictionary of
  three keys, hence true. Only the join can raise.
\<close>

definition csv_row :: "ScrapingResult \<Rightarrow> exn + cell list" where
  "csv_row result =
     (case (case data result of Some d \<Rightarrow> join '', '' (links d) | None \<Rightarrow> Inr '''') of
        Inl x \<Rightarrow> Inl x
      | Inr joined \<Rightarrow>
          Inr [CellStr (url result),
               (case status result of None \<Rightarrow> CellNone | Some s \<Rightarrow> CellInt s),
               CellStr (case data result of Some d \<Rightarrow> title d | None \<Rightarrow> ''''),
               CellStr joined,
               CellStr (if truthy (error result)
                        then (case error result of Some m \<Rightarrow> m | None \<Rightarrow> '''') else '''')])"

definition csv_header :: "cell list" where
  "csv_header = [CellStr ''URL'', CellStr ''Status'', CellStr ''Title'', CellStr ''Links'',
                 CellStr ''Error'']"

fun write_rows :: "string \<Rightarrow> ScrapingResult list \<Rightarrow> world \<Rightarrow> exn option \<times> world" where
  "write_rows path [] w = (None, w)"
| "write_rows path (result # rest) w =
     (case csv_row result of
        Inl x \<Rightarrow> (Some x, w)
      | Inr row \<Rightarrow> write_rows path rest (write_file path (CsvRow row) w))"

definition ResultHandler_save_results ::
  "env \<Rightarrow> ScrapingResult list \<Rightarrow> ScraperConfig \<Rightarrow> world \<Rightarrow> exn option \<times> world"
where
  "ResultHandler_save_results e results cfg w =
     (if output_format cfg = ''json'' then
        (case open_w e (output_path cfg) w of
           Inl x \<Rightarrow> (Some x, w)
         | Inr w1 \<Rightarrow> (None, write_file (output_path cfg) (JsonDump results) w1))
      else if output_format cfg = ''csv'' then
        (case open_w e (output_path cfg) w of
           Inl x \<Rightarrow> (Some x, w)
         | Inr w1 \<Rightarrow>
             write_rows (output_path cfg) results
               (write_file (output_path cfg) (CsvRow csv_header) w1))
      else (Some (Raise ValueError (''Unsupported output format: '' @ output_format cfg)), w))"

definition save_results ::
  "env \<Rightarrow> ScrapingResult list \<Rightarrow> ScraperConfig \<Rightarrow> world \<Rightarrow> exn option \<times> world"
where
  "save_results e results cfg w = ResultHandler_save_results e results cfg w"

subsection \<open>\<open>main\<close>\<close>

text \<open>
  The loop \<open>for url in urls\<close> of \<open>main\<close>, for any list of URLs and any configuration.
  \<open>Logger.setup_logging\<close> only configures the log format and changes nothing in the world.
\<close>

fun scrape_all ::
  "env \<Rightarrow> ScraperConfig \<Rightarrow> string list \<Rightarrow> ScrapingResult list \<Rightarrow> world
     \<Rightarrow> ScrapingResult list \<times> world"
where
  "scrape_all e cfg [] results w = (results, w)"
| "scrape_all e cfg (u # us) results w =
     (let (result, w1) = scrape_url e u cfg w;
          w2 = log_info (''Scraped '' @ u @ '': ''
                           @ (if \<not> truthy (error result) then ''Success'' else ''Failed'')) w1
      in scrape_all e cfg us (results @ [result]) w2)"

definition main_config :: ScraperConfig where
  "main_config = \<lparr>user_agent = ''MyScraper/1.0'', delay = 1, max_retries = 3, timeout = 10,
                   output_format = ''json'', output_path = ''results.json''\<rparr>"

definition main_urls :: "string list" where
  "main_urls = [''https://example.com'', ''https://example.org'']"

definition main :: "env \<Rightarrow> world \<Rightarrow> exn option \<times> world" where
  "main e w =
     (let (results, w1) = scrape_all e main_config main_urls [] w
      in case save_results e results main_config w1 of
           (Some x, w2) \<Rightarrow> (Some x, w2)
         | (None, w2) \<Rightarrow> (None, log_info (''Saved results to '' @ output_path main_config) w2))"

subsection \<open>How the network behaves\<close>

text \<open>
  How the \<open>n\<close>-th network attempt of the run ends when it is made for \<open>u\<close> under \<open>cfg\<close>, and
  whether it ends in one of the two exceptions that the loop retries.
\<close>

definition attempt_outcome :: "env \<Rightarrow> ScraperConfig \<Rightarrow> string \<Rightarrow> nat \<Rightarrow> attempt" where
  "attempt_outcome e cfg u n = snd (urlopen e (Request_init cfg u) (timeout cfg) n)"

definition fails_retriably :: "env \<Rightarrow> ScraperConfig \<Rightarrow> string \<Rightarrow> nat \<Rightarrow> bool" where
  "fails_retriably e cfg u n =
     (case attempt_outcome e cfg u n of Response b \<Rightarrow> False | Fails x \<Rightarrow> retriable x)"

subsection \<open>Example inputs\<close>

text \<open>A world at clock time 1000 in which nothing has happened yet.\<close>

definition start_world :: world where
  "start_world = \<lparr>now = 1000, trace = [], logged = [], files = Map.empty\<rparr>"

text \<open>A network on which every attempt times out after five seconds.\<close>

definition env_down :: env where
  "env_down =
     \<lparr>Request_raises = (\<lambda>u. None),
      urlopen = (\<lambda>req tmo n. (5, Fails (Raise URLError ''<urlopen error timed out>''))),
      oversleep = (\<lambda>n. 0),
      tokens = (\<lambda>s. ([], None)),
      open_raises = (\<lambda>path. None)\<rparr>"

text \<open>The seventeen bytes of \<open><title>Hi</title>\<close>.\<close>

definition hello_page :: bytes where
  "hello_page = [0x3C, 0x74, 0x69, 0x74, 0x6C, 0x65, 0x3E, 0x48, 0x69,
                 0x3C, 0x2F, 0x74, 0x69, 0x74, 0x6C, 0x65, 0x3E]"

text \<open>A network whose first attempt times out and whose later attempts deliver the page.\<close>

definition env_flaky :: env where
  "env_flaky =
     env_down\<lparr>urlopen := (\<lambda>req tmo n.
        if n = 0 then (5, Fails (Raise URLError ''<urlopen error timed out>''))
        else (1 / 4, Response hello_page))\<rparr>"

text \<open>
  A network whose first attempt ends in an HTTP error and whose later attempts end in an
  exception that is neither a \<open>URLError\<close> nor an \<open>HTTPError\<close> (a time-out while reading).
\<close>

definition env_reset :: env where
  "env_reset =
     env_down\<lparr>urlopen := (\<lambda>req tmo n.
        if n = 0 then (5, Fails (Raise HTTPError ''HTTP Error 503: Service Unavailable''))
        else (1 / 4, Fails (Raise OtherException ''The read operation timed out'')))\<rparr>"

text \<open>A network on which every attempt delivers the page after a quarter of a second.\<close>

definition env_up :: env where
  "env_up = env_down\<lparr>urlopen := (\<lambda>req tmo n. (1 / 4, Response hello_page))\<rparr>"

text \<open>
  A page whose title is followed by a line break, and the callbacks of the base parser
  on it: the line break between \<open></title>\<close> and \<open></head>\<close> is a text event of its own.
\<close>

definition title_page :: string where
  "title_page = ''<html><head><title>Hi</title>'' @ [CHR 0x0A]
                  @ ''</head><body><p>Hello</p></body></html>''"

definition title_page_events :: "event list" where
  "title_page_events =
     [StartTag ''<html>'' ''html'' [], StartTag ''<head>'' ''head'' [],
      StartTag ''<title>'' ''title'' [], Data ''Hi'', EndTag ''title'', Data [CHR 0x0A],
      EndTag ''head'', StartTag ''<body>'' ''body'' [], StartTag ''<p>'' ''p'' [],
      Data ''Hello'', EndTag ''p'', EndTag ''body'', EndTag ''html'']"

definition env_page :: env where
  "env_page =
     env_down\<lparr>tokens := (\<lambda>s. if s = title_page then (title_page_events, None)
                                else ([], None))\<rparr>"

text \<open>
  The CSV row of a result in the words of the specification: URL; status; title, or the
  empty string without a record; the links joined with comma and space, or the empty string
  without a record; the error message, or the empty string without one.
\<close>

definition spec_csv_row :: "ScrapingResult \<Rightarrow> cell list" where
  "spec_csv_row r =
     [CellStr (url r),
      (case status r of None \<Rightarrow> CellNone | Some s \<Rightarrow> CellInt s),
      CellStr (case data r of None \<Rightarrow> '''' | Some d \<Rightarrow> title d),
      CellStr (case data r of None \<Rightarrow> ''''
               | Some d \<Rightarrow> intercalate '', '' (concat (map (\<lambda>l. case l of None \<Rightarrow> [] | Some s \<Rightarrow> [s]) (links d)))),
      CellStr (case error r of None \<Rightarrow> '''' | Some m \<Rightarrow> m)]"

text \<open>
  The world after a first URL whose only attempt was dispatched at 1000 and took five
  seconds, and a configuration that asks for ten seconds between requests.
\<close>

definition after_first_url :: world where
  "after_first_url = \<lparr>now = 1005, trace = [Sent ''https://example.com'' 1000], logged = [],
                       files = Map.empty\<rparr>"

definition slow_config :: ScraperConfig where
  "slow_config = main_config\<lparr>delay := 10\<rparr>"

text \<open>Two results, one with a record of two links and one with an error, and a CSV configuration.\<close>

definition example_results :: "ScrapingResult list" where
  "example_results =
     [\<lparr>url = ''https://good.example'', status = Some 200,
       data = Some \<lparr>title = ''Hi'', links = [Some ''/a'', Some ''/b''],
                    meta = [(Some ''x'', Some ''y'')]\<rparr>,
       error = None\<rparr>,
      \<lparr>url = ''https://bad.example'', status = None, data = None,
       error = Some ''Failed after 2 attempts: <urlopen error timed out>''\<rparr>]"

definition csv_config :: ScraperConfig where
  "csv_config = main_config\<lparr>output_format := ''csv'', output_path := ''results.csv''\<rparr>"

section \<open>Properties\<close>

subsection \<open>The retry loop\<close>

lemma requests_of_append: "requests_of (xs @ ys) = requests_of xs @ requests_of ys"
  by (induction xs rule: requests_of.induct) simp_all

lemma requests_sleep: "requests (sleep e x w) = requests w"
  by (simp add: requests_def sleep_def requests_of_append)

lemma trace_sleep: "trace (sleep e x w) = trace w @ [Slept x]"
  by (simp add: sleep_def)

lemma enforce_delay_config: "config (fst (enforce_delay e c w)) = config c"
  by (simp add: enforce_delay_def Let_def)

lemma enforce_delay_requests: "requests (snd (enforce_delay e c w)) = requests w"
  by (simp add: enforce_delay_def Let_def requests_sleep)

lemma enforce_delay_trace: "\<exists>tr. trace (snd (enforce_delay e c w)) = trace w @ tr"
  by (simp add: enforce_delay_def Let_def trace_sleep)

lemma dispatch_outcome:
  "fst (dispatch e (Request_init cfg u) (timeout cfg) w) = attempt_outcome e cfg u (length (requests w))"
  by (simp add: dispatch_def attempt_outcome_def split: prod.splits)

lemma dispatch_trace:
  "trace (snd (dispatch e (Request_init cfg u) tmo w)) = trace w @ [Sent u (now w)]"
  by (simp add: dispatch_def Request_init_def split: prod.splits)

lemma dispatch_requests:
  "length (requests (snd (dispatch e (Request_init cfg u) tmo w))) = Suc (length (requests w))"
  by (simp add: requests_def dispatch_trace requests_of_append)

text \<open>One pass through the loop body.\<close>

lemma fetch_loop_step:
  assumes "config c = cfg"
  obtains c1 w1 tr t where
    "config c1 = cfg"
    and "length (requests w1) = Suc (length (requests w))"
    and "trace w1 = trace w @ tr @ [Sent u t]"
    and "fetch_loop e (Request_init cfg u) (a # rest) c w =
           (case attempt_outcome e cfg u (length (requests w)) of
              Response b \<Rightarrow> (Inr b, c1, w1)
            | Fails x \<Rightarrow>
                if retriable x then
                  if int a = max_retries cfg - 1
                  then (Inl (Raise Exception
                          (''Failed after '' @ str_int (max_retries cfg)
                             @ '' attempts: '' @ str_exn x)), c1, w1)
                  else fetch_loop e (Request_init cfg u) rest c1 (sleep e (2 ^ a) w1)
                else (Inl x, c1, w1))"
proof -
  obtain c1 w1 where ed: "enforce_delay e c w = (c1, w1)"
    by (cases "enforce_delay e c w")
  obtain r w2 where d: "dispatch e (Request_init cfg u) (timeout cfg) w1 = (r, w2)"
    by (cases "dispatch e (Request_init cfg u) (timeout cfg) w1")
  have cfg1: "config c1 = cfg"
    using enforce_delay_config [of e c w] ed assms by simp
  have rq1: "requests w1 = requests w"
    using enforce_delay_requests [of e c w] ed by simp
  have r: "r = attempt_outcome e cfg u (length (requests w))"
    using dispatch_outcome [of e cfg u w1] d rq1 by simp
  have len: "length (requests w2) = Suc (length (requests w))"
    using dispatch_requests [of e cfg u "timeout cfg" w1] d rq1 by simp
  obtain tr where tr: "trace w1 = trace w @ tr"
    using enforce_delay_trace [of e c w] ed by auto
  have t2: "trace w2 = trace w @ tr @ [Sent u (now w1)]"
    using dispatch_trace [of e cfg u "timeout cfg" w1] d tr by simp
  have "fetch_loop e (Request_init cfg u) (a # rest) c w =
           (case attempt_outcome e cfg u (length (requests w)) of
              Response b \<Rightarrow> (Inr b, c1, w2)
            | Fails x \<Rightarrow>
                if retriable x then
                  if int a = max_retries cfg - 1
                  then (Inl (Raise Exception
                          (''Failed after '' @ str_int (max_retries cfg)
                             @ '' attempts: '' @ str_exn x)), c1, w2)
                  else fetch_loop e (Request_init cfg u) rest c1 (sleep e (2 ^ a) w2)
                else (Inl x, c1, w2))"
    using ed d cfg1 r by (simp split: attempt.splits)
  then show ?thesis
    using that [of c1 w2 tr "now w1"] cfg1 len t2 by blast
qed

text \<open>
  A run of retriable failures, none of them on the last allowed attempt, leads to
  the rest of the loop.
\<close>

lemma fetch_loop_retries:
  assumes "config c = cfg"
    and "\<forall>a \<in> set xs. int a \<noteq> max_retries cfg - 1"
    and "\<forall>m < length xs. fails_retriably e cfg u (length (requests w) + m)"
  shows "\<exists>c1 w1 tr.
           fetch_loop e (Request_init cfg u) (xs @ ys) c w =
             fetch_loop e (Request_init cfg u) ys c1 w1
           \<and> config c1 = cfg
           \<and> length (requests w1) = length (requests w) + length xs
           \<and> trace w1 = trace w @ tr"
  using assms
proof (induction xs arbitrary: c w)
  case Nil
  then show ?case
    by (intro exI [of _ c] exI [of _ w] exI [of _ "[]"]) simp
next
  case (Cons a xs)
  obtain c1 w1 tr t where
    c1: "config c1 = cfg"
    and l1: "length (requests w1) = Suc (length (requests w))"
    and t1: "trace w1 = trace w @ tr @ [Sent u t]"
    and st: "fetch_loop e (Request_init cfg u) (a # (xs @ ys)) c w =
           (case attempt_outcome e cfg u (length (requests w)) of
              Response b \<Rightarrow> (Inr b, c1, w1)
            | Fails x \<Rightarrow>
                if retriable x then
                  if int a = max_retries cfg - 1
                  then (Inl (Raise Exception
                          (''Failed after '' @ str_int (max_retries cfg)
                             @ '' attempts: '' @ str_exn x)), c1, w1)
                  else fetch_loop e (Request_init cfg u) (xs @ ys) c1 (sleep e (2 ^ a) w1)
                else (Inl x, c1, w1))"
    using fetch_loop_step [OF Cons.prems(1), where u = u and e = e and a = a and rest = "xs @ ys" and w = w]
    by blast
  have f0: "fails_retriably e cfg u (length (requests w))"
    using Cons.prems(3) by force
  have na: "int a \<noteq> max_retries cfg - 1"
    using Cons.prems(2) by simp
  let ?w2 = "sleep e (2 ^ a) w1"
  have st': "fetch_loop e (Request_init cfg u) (a # (xs @ ys)) c w =
             fetch_loop e (Request_init cfg u) (xs @ ys) c1 ?w2"
    using st f0 na by (simp add: fails_retriably_def split: attempt.splits)
  have l2: "length (requests ?w2) = Suc (length (requests w))"
    using l1 by (simp add: requests_sleep)
  have p2: "\<forall>a \<in> set xs. int a \<noteq> max_retries cfg - 1"
    using Cons.prems(2) by simp
  have p3: "\<forall>m < length xs. fails_retriably e cfg u (length (requests ?w2) + m)"
  proof (intro allI impI)
    fix m assume "m < length xs"
    then have "Suc m < length (a # xs)" by simp
    then have "fails_retriably e cfg u (length (requests w) + Suc m)"
      using Cons.prems(3) by blast
    then show "fails_retriably e cfg u (length (requests ?w2) + m)"
      using l2 by simp
  qed
  obtain c3 w3 tr3 where
    r3: "fetch_loop e (Request_init cfg u) (xs @ ys) c1 ?w2 =
           fetch_loop e (Request_init cfg u) ys c3 w3"
    and c3: "config c3 = cfg"
    and l3: "length (requests w3) = length (requests ?w2) + length xs"
    and t3: "trace w3 = trace ?w2 @ tr3"
    using Cons.IH [OF c1 p2 p3] by blast
  have "trace w3 = trace w @ (tr @ [Sent u t] @ [Slept (2 ^ a)] @ tr3)"
    using t3 t1 by (simp add: trace_sleep)
  then show ?case
    using st' r3 c3 l3 l2 by auto
qed

lemma upt_split_at: "j < n \<Longrightarrow> [0 ..< n] = [0 ..< j] @ j # [Suc j ..< n]"
  using upt_add_eq_append [of 0 j "n - j"] upt_conv_Cons [of j n] by simp

text \<open>
  \<open>fetch\<close> after \<open>j\<close> retriable failures, when attempt \<open>j\<close> (counted from 0) is still
  allowed: the outcome of that attempt decides.
\<close>

lemma fetch_after_retries:
  assumes "Request_raises e u = None"
    and "config c = cfg"
    and "int j < max_retries cfg"
    and "\<forall>m < j. fails_retriably e cfg u (length (requests w) + m)"
  obtains c1 w1 tr t where
    "length (requests w1) = length (requests w) + j + 1"
    and "trace w1 = trace w @ tr @ [Sent u t]"
    and "fetch e c u w =
           (case attempt_outcome e cfg u (length (requests w) + j) of
              Response b \<Rightarrow> (Inr b, c1, w1)
            | Fails x \<Rightarrow>
                if retriable x then
                  if int j = max_retries cfg - 1
                  then (Inl (Raise Exception
                          (''Failed after '' @ str_int (max_retries cfg)
                             @ '' attempts: '' @ str_exn x)), c1, w1)
                  else fetch_loop e (Request_init cfg u) [Suc j ..< nat (max_retries cfg)] c1
                         (sleep e (2 ^ j) w1)
                else (Inl x, c1, w1))"
proof -
  let ?n = "nat (max_retries cfg)"
  let ?req = "Request_init cfg u"
  have jn: "j < ?n"
    using assms(3) by linarith
  have split: "[0 ..< ?n] = [0 ..< j] @ j # [Suc j ..< ?n]"
    using upt_split_at [OF jn] .
  have early: "\<forall>a \<in> set [0 ..< j]. int a \<noteq> max_retries cfg - 1"
    using assms(3) by auto
  have fails: "\<forall>m < length [0 ..< j]. fails_retriably e cfg u (length (requests w) + m)"
    using assms(4) by simp
  obtain c0 w0 tr0 where
    r0: "fetch_loop e ?req ([0 ..< j] @ j # [Suc j ..< ?n]) c w =
           fetch_loop e ?req (j # [Suc j ..< ?n]) c0 w0"
    and c0: "config c0 = cfg"
    and l0: "length (requests w0) = length (requests w) + length [0 ..< j]"
    and t0: "trace w0 = trace w @ tr0"
    using fetch_loop_retries [OF assms(2) early fails, of "j # [Suc j ..< ?n]"] by blast
  obtain c1 w1 tr1 t where
    l1: "length (requests w1) = Suc (length (requests w0))"
    and t1: "trace w1 = trace w0 @ tr1 @ [Sent u t]"
    and st: "fetch_loop e ?req (j # [Suc j ..< ?n]) c0 w0 =
           (case attempt_outcome e cfg u (length (requests w0)) of
              Response b \<Rightarrow> (Inr b, c1, w1)
            | Fails x \<Rightarrow>
                if retriable x then
                  if int j = max_retries cfg - 1
                  then (Inl (Raise Exception
                          (''Failed after '' @ str_int (max_retries cfg)
                             @ '' attempts: '' @ str_exn x)), c1, w1)
                  else fetch_loop e ?req [Suc j ..< ?n] c1 (sleep e (2 ^ j) w1)
                else (Inl x, c1, w1))"
    by (rule fetch_loop_step [OF c0, where u = u and e = e and a = j
                                and rest = "[Suc j ..< ?n]" and w = w0])
      (rule that, assumption+)
  have l0': "length (requests w0) = length (requests w) + j"
    using l0 by simp
  have f: "fetch e c u w = fetch_loop e ?req [0 ..< ?n] c w"
    using assms(1,2) by (simp add: fetch_def)
  have a: "length (requests w1) = length (requests w) + j + 1"
    using l1 l0' by simp
  have b: "trace w1 = trace w @ (tr0 @ tr1) @ [Sent u t]"
    using t1 t0 by simp
  have c: "fetch e c u w =
           (case attempt_outcome e cfg u (length (requests w) + j) of
              Response b \<Rightarrow> (Inr b, c1, w1)
            | Fails x \<Rightarrow>
                if retriable x then
                  if int j = max_retries cfg - 1
                  then (Inl (Raise Exception
                          (''Failed after '' @ str_int (max_retries cfg)
                             @ '' attempts: '' @ str_exn x)), c1, w1)
                  else fetch_loop e ?req [Suc j ..< ?n] c1 (sleep e (2 ^ j) w1)
                else (Inl x, c1, w1))"
    unfolding f
    by (subst split) (simp only: r0 st l0')
  show ?thesis
    using that [OF a b c] .
qed

text \<open>
  C2. Let \<open>k = max_retries\<close> be at least 1 and let the request object be constructible.
  If each of the next \<open>k\<close> network attempts ends in a \<open>URLError\<close> or \<open>HTTPError\<close>, then
  \<open>fetch\<close> makes exactly \<open>k\<close> attempts and raises \<open>Failed after k attempts: cause\<close>, where
  the cause is the text of the exception of the \<open>k\<close>-th attempt. If the first \<open>i - 1\<close>
  attempts end so and attempt \<open>i \<le> k\<close> delivers bytes, then \<open>fetch\<close> makes exactly \<open>i\<close>
  attempts and returns those bytes.
\<close>

theorem fetch_retry_bound:
  assumes "Request_raises e u = None" and "1 \<le> max_retries (config c)"
  shows
    "((\<forall>m < nat (max_retries (config c)).
         fails_retriably e (config c) u (length (requests w) + m)) \<longrightarrow>
      (\<exists>x c' w'.
         fetch e c u w =
           (Inl (Raise Exception (''Failed after '' @ str_int (max_retries (config c))
                                    @ '' attempts: '' @ str_exn x)), c', w')
         \<and> attempt_outcome e (config c) u
               (length (requests w) + nat (max_retries (config c)) - 1) = Fails x
         \<and> length (requests w') = length (requests w) + nat (max_retries (config c))))
     \<and>
     (\<forall>i b. 1 \<le> i \<and> int i \<le> max_retries (config c)
         \<and> (\<forall>m < i - 1. fails_retriably e (config c) u (length (requests w) + m))
         \<and> attempt_outcome e (config c) u (length (requests w) + i - 1) = Response b \<longrightarrow>
       (\<exists>c' w'. fetch e c u w = (Inr b, c', w')
          \<and> length (requests w') = length (requests w) + i))"
proof (intro conjI allI impI)
  let ?cfg = "config c"
  let ?k = "max_retries ?cfg"
  assume all: "\<forall>m < nat ?k. fails_retriably e ?cfg u (length (requests w) + m)"
  define j where "j = nat ?k - 1"
  have jk: "int j < ?k" and jl: "int j = ?k - 1"
    using assms(2) by (simp_all add: j_def)
  have pre: "\<forall>m < j. fails_retriably e ?cfg u (length (requests w) + m)"
    using all by (simp add: j_def)
  have jn: "j < nat ?k"
    using assms(2) by (simp add: j_def)
  have idx: "length (requests w) + nat ?k - 1 = length (requests w) + j"
    using jn by (simp add: j_def)
  have lastf: "fails_retriably e ?cfg u (length (requests w) + j)"
    using all jn by blast
  then obtain x where x: "attempt_outcome e ?cfg u (length (requests w) + j) = Fails x"
    and rx: "retriable x"
    by (auto simp: fails_retriably_def split: attempt.splits)
  obtain c1 w1 tr t where
    l: "length (requests w1) = length (requests w) + j + 1"
    and f: "fetch e c u w =
           (case attempt_outcome e ?cfg u (length (requests w) + j) of
              Response b \<Rightarrow> (Inr b, c1, w1)
            | Fails x \<Rightarrow>
                if retriable x then
                  if int j = ?k - 1
                  then (Inl (Raise Exception
                          (''Failed after '' @ str_int ?k @ '' attempts: '' @ str_exn x)), c1, w1)
                  else fetch_loop e (Request_init ?cfg u) [Suc j ..< nat ?k] c1
                         (sleep e (2 ^ j) w1)
                else (Inl x, c1, w1))"
    using fetch_after_retries [OF assms(1) refl jk pre] by blast
  have "fetch e c u w =
          (Inl (Raise Exception (''Failed after '' @ str_int ?k @ '' attempts: '' @ str_exn x)),
           c1, w1)"
    using f x rx jl by simp
  moreover have "attempt_outcome e ?cfg u (length (requests w) + nat ?k - 1) = Fails x"
    using x idx by simp
  moreover have "length (requests w1) = length (requests w) + nat ?k"
    using l jn by (simp add: j_def)
  ultimately show "\<exists>x c' w'.
         fetch e c u w =
           (Inl (Raise Exception (''Failed after '' @ str_int ?k
                                    @ '' attempts: '' @ str_exn x)), c', w')
         \<and> attempt_outcome e ?cfg u (length (requests w) + nat ?k - 1) = Fails x
         \<and> length (requests w') = length (requests w) + nat ?k"
    by blast
next
  let ?cfg = "config c"
  let ?k = "max_retries ?cfg"
  fix i b
  assume h: "1 \<le> i \<and> int i \<le> ?k
         \<and> (\<forall>m < i - 1. fails_retriably e ?cfg u (length (requests w) + m))
         \<and> attempt_outcome e ?cfg u (length (requests w) + i - 1) = Response b"
  define j where "j = i - 1"
  have ij: "i = Suc j"
    using h by (simp add: j_def)
  have jk: "int j < ?k"
    using h ij by linarith
  have pre: "\<forall>m < j. fails_retriably e ?cfg u (length (requests w) + m)"
    using h by (simp add: j_def)
  have r: "attempt_outcome e ?cfg u (length (requests w) + j) = Response b"
    using h ij by simp
  obtain c1 w1 tr t where
    l: "length (requests w1) = length (requests w) + j + 1"
    and f: "fetch e c u w =
           (case attempt_outcome e ?cfg u (length (requests w) + j) of
              Response b \<Rightarrow> (Inr b, c1, w1)
            | Fails x \<Rightarrow>
                if retriable x then
                  if int j = ?k - 1
                  then (Inl (Raise Exception
                          (''Failed after '' @ str_int ?k @ '' attempts: '' @ str_exn x)), c1, w1)
                  else fetch_loop e (Request_init ?cfg u) [Suc j ..< nat ?k] c1
                         (sleep e (2 ^ j) w1)
                else (Inl x, c1, w1))"
    using fetch_after_retries [OF assms(1) refl jk pre] by blast
  have "fetch e c u w = (Inr b, c1, w1)"
    using f r by simp
  moreover have "length (requests w1) = length (requests w) + i"
    using l ij by simp
  ultimately show "\<exists>c' w'. fetch e c u w = (Inr b, c', w')
          \<and> length (requests w') = length (requests w) + i"
    by blast
qed

theorem fetch_retry_bound_witness:
  "(Request_raises env_down ''https://bad.example'' = None
    \<and> 1 \<le> max_retries (config (HTTPClient_init (main_config\<lparr>max_retries := 2\<rparr>)))
    \<and> fails_retriably env_down (config (HTTPClient_init (main_config\<lparr>max_retries := 2\<rparr>)))
          ''https://bad.example'' (length (requests start_world) + 0)
    \<and> fails_retriably env_down (config (HTTPClient_init (main_config\<lparr>max_retries := 2\<rparr>)))
          ''https://bad.example'' (length (requests start_world) + 1)
    \<and> fst (fetch env_down (HTTPClient_init (main_config\<lparr>max_retries := 2\<rparr>))
              ''https://bad.example'' start_world)
        = Inl (Raise Exception ''Failed after 2 attempts: <urlopen error timed out>'')
    \<and> length (requests (snd (snd (fetch env_down
              (HTTPClient_init (main_config\<lparr>max_retries := 2\<rparr>))
              ''https://bad.example'' start_world)))) = 2)
   \<and>
   (Request_raises env_flaky ''https://good.example'' = None
    \<and> 1 \<le> max_retries (config (HTTPClient_init main_config))
    \<and> (1::nat) \<le> 2 \<and> int 2 \<le> max_retries (config (HTTPClient_init main_config))
    \<and> fails_retriably env_flaky (config (HTTPClient_init main_config))
          ''https://good.example'' (length (requests start_world) + 0)
    \<and> attempt_outcome env_flaky (config (HTTPClient_init main_config)) ''https://good.example''
          (length (requests start_world) + 2 - 1) = Response hello_page
    \<and> fst (fetch env_flaky (HTTPClient_init main_config) ''https://good.example'' start_world)
        = Inr hello_page
    \<and> length (requests (snd (snd (fetch env_flaky (HTTPClient_init main_config)
              ''https://good.example'' start_world)))) = 2)"
proof -
  let ?c = "HTTPClient_init (main_config\<lparr>max_retries := 2\<rparr>)"
  let ?d = "HTTPClient_init main_config"
  have a1: "Request_raises env_down ''https://bad.example'' = None"
    by (simp add: env_down_def)
  have a2: "1 \<le> max_retries (config ?c)"
    by (simp add: HTTPClient_init_def)
  have a3: "\<forall>m < nat (max_retries (config ?c)).
           fails_retriably env_down (config ?c) ''https://bad.example''
             (length (requests start_world) + m)"
    by (simp add: fails_retriably_def attempt_outcome_def env_down_def)
  have k: "max_retries (config ?c) = 2"
    by (simp add: HTTPClient_init_def)
  obtain x c' w' where
    f: "fetch env_down ?c ''https://bad.example'' start_world =
          (Inl (Raise Exception (''Failed after '' @ str_int (max_retries (config ?c))
                                   @ '' attempts: '' @ str_exn x)), c', w')"
    and x: "attempt_outcome env_down (config ?c) ''https://bad.example''
              (length (requests start_world) + nat (max_retries (config ?c)) - 1) = Fails x"
    and n: "length (requests w') = length (requests start_world) + nat (max_retries (config ?c))"
    using fetch_retry_bound [OF a1 a2, of start_world] a3 by blast
  have x': "x = Raise URLError ''<urlopen error timed out>''"
    using x by (simp add: attempt_outcome_def env_down_def)
  have two: "str_int 2 = ''2''"
    by code_simp
  have a4: "fst (fetch env_down ?c ''https://bad.example'' start_world)
        = Inl (Raise Exception ''Failed after 2 attempts: <urlopen error timed out>'')"
    by (simp add: f x' k two)
  have a5: "length (requests (snd (snd (fetch env_down ?c ''https://bad.example'' start_world))))
        = 2"
  proof -
    have "length (requests w') = 2"
      using n k by (simp add: requests_def start_world_def)
    then show ?thesis
      by (simp add: f)
  qed
  have b1: "Request_raises env_flaky ''https://good.example'' = None"
    by (simp add: env_flaky_def env_down_def)
  have b2: "1 \<le> max_retries (config ?d)"
    by (simp add: HTTPClient_init_def main_config_def)
  have b3: "(1::nat) \<le> 2 \<and> int 2 \<le> max_retries (config ?d)"
    by (simp add: HTTPClient_init_def main_config_def)
  have b4: "\<forall>m < 2 - 1. fails_retriably env_flaky (config ?d) ''https://good.example''
                        (length (requests start_world) + m)"
    by (simp add: fails_retriably_def attempt_outcome_def env_flaky_def env_down_def
        requests_def start_world_def)
  have b5: "attempt_outcome env_flaky (config ?d) ''https://good.example''
          (length (requests start_world) + 2 - 1) = Response hello_page"
    by (simp add: attempt_outcome_def env_flaky_def env_down_def requests_def start_world_def)
  obtain d' v' where
    g: "fetch env_flaky ?d ''https://good.example'' start_world = (Inr hello_page, d', v')"
    and m: "length (requests v') = length (requests start_world) + 2"
    using fetch_retry_bound [OF b1 b2, of start_world] b3 b4 b5 by blast
  have b6: "fst (fetch env_flaky ?d ''https://good.example'' start_world) = Inr hello_page"
    by (simp add: g)
  have b7: "length (requests (snd (snd (fetch env_flaky ?d ''https://good.example''
              start_world)))) = 2"
  proof -
    have "length (requests v') = 2"
      using m by (simp add: requests_def start_world_def)
    then show ?thesis
      by (simp add: g)
  qed
  have a3': "fails_retriably env_down (config ?c) ''https://bad.example''
               (length (requests start_world) + m)" for m
    by (simp add: fails_retriably_def attempt_outcome_def env_down_def)
  have b4': "fails_retriably env_flaky (config ?d) ''https://good.example''
               (length (requests start_world) + 0)"
    using b4 by simp
  show ?thesis
    using a1 a2 a3' [of 0] a3' [of 1] a4 a5 b1 b2 b3 b4' b5 b6 b7 by blast
qed

text \<open>
  C10. Only \<open>URLError\<close> and \<open>HTTPError\<close> are retried. When an allowed attempt, after any
  number of retried failures, ends in another exception, \<open>fetch\<close> raises that very exception:
  the failing attempt is the last thing done (no further attempt, no backoff sleep), and
  \<open>scrape_url\<close> turns it into a result whose \<open>error\<close> is the text of the exception.
\<close>

theorem fetch_other_exception_propagates:
  assumes "Request_raises e u = None"
    and "int j < max_retries cfg"
    and "\<forall>m < j. fails_retriably e cfg u (length (requests w) + m)"
    and "attempt_outcome e cfg u (length (requests w) + j) = Fails x"
    and "\<not> retriable x"
  shows "\<exists>c' w' tr t.
           fetch e (HTTPClient_init cfg) u w = (Inl x, c', w')
           \<and> length (requests w') = length (requests w) + j + 1
           \<and> trace w' = trace w @ tr @ [Sent u t]
           \<and> scrape_url e u cfg w =
               (\<lparr>url = u, status = None, data = None, error = Some (str_exn x)\<rparr>,
                log_error (''Failed to scrape '' @ u @ '': '' @ str_exn x) w')"
proof -
  have cfg: "config (HTTPClient_init cfg) = cfg"
    by (simp add: HTTPClient_init_def)
  obtain c1 w1 tr t where
    l: "length (requests w1) = length (requests w) + j + 1"
    and t: "trace w1 = trace w @ tr @ [Sent u t]"
    and f: "fetch e (HTTPClient_init cfg) u w =
           (case attempt_outcome e cfg u (length (requests w) + j) of
              Response b \<Rightarrow> (Inr b, c1, w1)
            | Fails x \<Rightarrow>
                if retriable x then
                  if int j = max_retries cfg - 1
                  then (Inl (Raise Exception
                          (''Failed after '' @ str_int (max_retries cfg)
                             @ '' attempts: '' @ str_exn x)), c1, w1)
                  else fetch_loop e (Request_init cfg u) [Suc j ..< nat (max_retries cfg)] c1
                         (sleep e (2 ^ j) w1)
                else (Inl x, c1, w1))"
    by (rule fetch_after_retries [OF assms(1) cfg assms(2) assms(3)]) (rule that, assumption+)
  have f': "fetch e (HTTPClient_init cfg) u w = (Inl x, c1, w1)"
    using f assms(4,5) by simp
  have s: "scrape_url e u cfg w =
               (\<lparr>url = u, status = None, data = None, error = Some (str_exn x)\<rparr>,
                log_error (''Failed to scrape '' @ u @ '': '' @ str_exn x) w1)"
    by (simp add: scrape_url_def f' on_exception_def)
  show ?thesis
    using f' l t s by (intro exI [of _ c1] exI [of _ w1] exI [of _ tr] exI [of _ t]) simp
qed

theorem fetch_other_exception_propagates_witness:
  "Request_raises env_reset ''https://example.com'' = None
   \<and> int 1 < max_retries main_config
   \<and> fails_retriably env_reset main_config ''https://example.com''
         (length (requests start_world) + 0)
   \<and> attempt_outcome env_reset main_config ''https://example.com''
         (length (requests start_world) + 1)
       = Fails (Raise OtherException ''The read operation timed out'')
   \<and> \<not> retriable (Raise OtherException ''The read operation timed out'')
   \<and> fst (scrape_url env_reset ''https://example.com'' main_config start_world) =
         \<lparr>url = ''https://example.com'', status = None, data = None,
          error = Some ''The read operation timed out''\<rparr>
   \<and> length (requests (snd (scrape_url env_reset ''https://example.com'' main_config start_world)))
       = 2"
proof -
  have h1: "Request_raises env_reset ''https://example.com'' = None"
    by (simp add: env_reset_def env_down_def)
  have h2: "int 1 < max_retries main_config"
    by (simp add: main_config_def)
  have h3: "\<forall>m < 1. fails_retriably env_reset main_config ''https://example.com''
                  (length (requests start_world) + m)"
    by (simp add: fails_retriably_def attempt_outcome_def env_reset_def env_down_def
        requests_def start_world_def)
  have h4: "attempt_outcome env_reset main_config ''https://example.com''
         (length (requests start_world) + 1)
       = Fails (Raise OtherException ''The read operation timed out'')"
    by (simp add: attempt_outcome_def env_reset_def env_down_def requests_def start_world_def)
  have h5: "\<not> retriable (Raise OtherException ''The read operation timed out'')"
    by simp
  have h3': "fails_retriably env_reset main_config ''https://example.com''
               (length (requests start_world) + 0)"
    using h3 by simp
  show ?thesis
    using fetch_other_exception_propagates [OF h1 h2 h3 h4 h5] h1 h2 h3' h4
    by (auto simp: log_error_def requests_def start_world_def)
qed

subsection \<open>Request pacing\<close>

text \<open>
  C8. Two consecutive calls of \<open>_enforce_delay\<close> on one client, with any stretch of time
  between them: the second recorded time is at least \<open>delay\<close> after the first. If less
  than \<open>delay\<close> has elapsed since the first recorded time, the second call sleeps for
  exactly the remaining difference before it records; otherwise it does not sleep and
  leaves the world as it is. A sleep is assumed to last at least as long as asked.
\<close>

theorem enforce_delay_separation:
  assumes "0 \<le> oversleep e (length (sleeps w2))"
    and "enforce_delay e c w = (c1, w1)"
    and "enforce_delay e c1 w2 = (c2, w3)"
  shows "last_request_time c1 + delay (config c) \<le> last_request_time c2
         \<and> (now w2 - last_request_time c1 < delay (config c) \<longrightarrow>
              trace w3 = trace w2 @ [Slept (delay (config c) - (now w2 - last_request_time c1))])
         \<and> (delay (config c) \<le> now w2 - last_request_time c1 \<longrightarrow> w3 = w2)"
proof -
  have cfg: "config c1 = config c"
    using enforce_delay_config [of e c w] assms(2) by simp
  show ?thesis
    using assms(1,3) cfg
    by (auto simp: enforce_delay_def Let_def sleep_def split: if_splits)
qed

theorem enforce_delay_separation_witness:
  "(0 \<le> oversleep env_down (length (sleeps (start_world\<lparr>now := 4001 / 4\<rparr>)))
    \<and> enforce_delay env_down (HTTPClient_init main_config) start_world
        = (\<lparr>config = main_config, last_request_time = 1000\<rparr>, start_world)
    \<and> now (start_world\<lparr>now := 4001 / 4\<rparr>) - 1000 < delay main_config
    \<and> enforce_delay env_down \<lparr>config = main_config, last_request_time = 1000\<rparr>
          (start_world\<lparr>now := 4001 / 4\<rparr>)
        = (\<lparr>config = main_config, last_request_time = 1001\<rparr>,
           start_world\<lparr>now := 1001, trace := [Slept (3 / 4)]\<rparr>))
   \<and>
   (0 \<le> oversleep env_down (length (sleeps (start_world\<lparr>now := 1003\<rparr>)))
    \<and> delay main_config \<le> now (start_world\<lparr>now := 1003\<rparr>) - 1000
    \<and> enforce_delay env_down \<lparr>config = main_config, last_request_time = 1000\<rparr>
          (start_world\<lparr>now := 1003\<rparr>)
        = (\<lparr>config = main_config, last_request_time = 1003\<rparr>, start_world\<lparr>now := 1003\<rparr>))"
proof -
  let ?c1 = "\<lparr>config = main_config, last_request_time = 1000\<rparr>"
  let ?wa = "start_world\<lparr>now := 4001 / 4\<rparr>"
  let ?wb = "start_world\<lparr>now := 1003\<rparr>"
  have o: "0 \<le> oversleep env_down n" for n
    by (simp add: env_down_def)
  have first: "enforce_delay env_down (HTTPClient_init main_config) start_world = (?c1, start_world)"
    by (simp add: enforce_delay_def Let_def HTTPClient_init_def main_config_def start_world_def)
  have late: "now ?wa - 1000 < delay main_config"
    by (simp add: main_config_def)
  have gap: "delay main_config \<le> now ?wb - 1000"
    by (simp add: main_config_def)
  obtain c2 w3 where a: "enforce_delay env_down ?c1 ?wa = (c2, w3)"
    by (cases "enforce_delay env_down ?c1 ?wa")
  obtain c4 w5 where b: "enforce_delay env_down ?c1 ?wb = (c4, w5)"
    by (cases "enforce_delay env_down ?c1 ?wb")
  have sep: "last_request_time ?c1 + delay (config (HTTPClient_init main_config))
               \<le> last_request_time c2"
    using enforce_delay_separation [OF o first a] by blast
  have tb: "w5 = ?wb"
    using enforce_delay_separation [OF o first b] gap
    by (simp add: HTTPClient_init_def)
  have ea: "enforce_delay env_down ?c1 ?wa =
              (\<lparr>config = main_config, last_request_time = 1001\<rparr>,
               start_world\<lparr>now := 1001, trace := [Slept (3 / 4)]\<rparr>)"
    by (simp add: enforce_delay_def Let_def sleep_def sleeps_def main_config_def start_world_def
        env_down_def)
  have eb: "enforce_delay env_down ?c1 ?wb =
              (\<lparr>config = main_config, last_request_time = 1003\<rparr>, ?wb)"
    using b tb by (simp add: enforce_delay_def Let_def main_config_def)
  show ?thesis
    using o first late gap ea eb sep by simp
qed

lemma fetch_loop_trace_grows:
  "\<exists>tr. trace (snd (snd (fetch_loop e req xs c w))) = trace w @ tr"
proof (induction xs arbitrary: c w)
  case Nil
  show ?case by simp
next
  case (Cons a xs)
  obtain c1 w1 where ed: "enforce_delay e c w = (c1, w1)"
    by (cases "enforce_delay e c w")
  obtain r w2 where d: "dispatch e req (timeout (config c1)) w1 = (r, w2)"
    by (cases "dispatch e req (timeout (config c1)) w1")
  obtain tr1 where t1: "trace w1 = trace w @ tr1"
    using enforce_delay_trace [of e c w] ed by auto
  have t2: "trace w2 = trace w @ tr1 @ [Sent (full_url req) (now w1)]"
    using d t1 by (auto simp: dispatch_def split: prod.splits)
  obtain tr3 where t3:
    "trace (snd (snd (fetch_loop e req xs c1 (sleep e (2 ^ a) w2)))) =
       trace (sleep e (2 ^ a) w2) @ tr3"
    using Cons.IH [of c1 "sleep e (2 ^ a) w2"] by blast
  have t4: "trace (snd (snd (fetch_loop e req xs c1 (sleep e (2 ^ a) w2)))) =
       trace w @ tr1 @ [Sent (full_url req) (now w1)] @ [Slept (2 ^ a)] @ tr3"
    using t3 t2 by (simp add: trace_sleep)
  show ?case
    using ed d t2 t4 by (simp split: attempt.splits)
qed

lemma enforce_delay_fresh:
  assumes "delay cfg \<le> now w"
  shows "enforce_delay e (HTTPClient_init cfg) w = (\<lparr>config = cfg, last_request_time = now w\<rparr>, w)"
  using assms by (simp add: enforce_delay_def Let_def HTTPClient_init_def)

lemma trace_log_error: "trace (log_error m w) = trace w"
  by (simp add: log_error_def)

lemma scrape_url_trace: "trace (snd (scrape_url e u cfg w)) =
    trace (snd (snd (fetch e (HTTPClient_init cfg) u w)))"
  by (simp add: scrape_url_def Let_def on_exception_def trace_log_error
      split: prod.splits sum.splits)

text \<open>
  C9. \<open>scrape_url\<close> builds a new client whose last request time is 0. When the clock shows
  at least \<open>delay\<close>, the first \<open>_enforce_delay\<close> of the fetch does not sleep, and the first
  attempt for the URL is the very next action after whatever the run did before, dispatched
  at the current clock time: no interval is kept from the last attempt of the previous URL.
\<close>

theorem scrape_url_fresh_client_no_wait:
  assumes "delay cfg \<le> now w" and "Request_raises e u = None" and "0 < max_retries cfg"
  shows "last_request_time (HTTPClient_init cfg) = 0
         \<and> enforce_delay e (HTTPClient_init cfg) w
             = (\<lparr>config = cfg, last_request_time = now w\<rparr>, w)
         \<and> (\<exists>rest. trace (snd (scrape_url e u cfg w)) = trace w @ Sent u (now w) # rest)"
proof -
  let ?c = "HTTPClient_init cfg"
  let ?c1 = "\<lparr>config = cfg, last_request_time = now w\<rparr>"
  let ?req = "Request_init cfg u"
  let ?n = "nat (max_retries cfg)"
  have fresh: "enforce_delay e ?c w = (?c1, w)"
    using enforce_delay_fresh [OF assms(1)] .
  have upt: "[0 ..< ?n] = 0 # [Suc 0 ..< ?n]"
    using assms(3) upt_conv_Cons [of 0 ?n] by simp
  have f: "fetch e ?c u w = fetch_loop e ?req (0 # [Suc 0 ..< ?n]) ?c w"
    using assms(2) upt by (simp add: fetch_def HTTPClient_init_def)
  obtain r w2 where d: "dispatch e ?req (timeout cfg) w = (r, w2)"
    by (cases "dispatch e ?req (timeout cfg) w")
  have t2: "trace w2 = trace w @ [Sent u (now w)]"
    using dispatch_trace [of e cfg u "timeout cfg" w] d by simp
  obtain tr3 where t3:
    "trace (snd (snd (fetch_loop e ?req [Suc 0 ..< ?n] ?c1 (sleep e (2 ^ 0) w2)))) =
       trace (sleep e (2 ^ 0) w2) @ tr3"
    using fetch_loop_trace_grows [of e ?req "[Suc 0 ..< ?n]" ?c1 "sleep e (2 ^ 0) w2"] by blast
  have t4: "trace (snd (snd (fetch_loop e ?req [Suc 0 ..< ?n] ?c1 (sleep e (2 ^ 0) w2)))) =
       trace w @ Sent u (now w) # (Slept (2 ^ 0) # tr3)"
    using t3 t2 by (simp add: trace_sleep)
  have "\<exists>rest. trace (snd (snd (fetch_loop e ?req (0 # [Suc 0 ..< ?n]) ?c w))) =
          trace w @ Sent u (now w) # rest"
    using fresh d t2 t4 by (simp split: attempt.splits)
  then have "\<exists>rest. trace (snd (scrape_url e u cfg w)) = trace w @ Sent u (now w) # rest"
    by (simp only: scrape_url_trace f)
  then show ?thesis
    using fresh by (simp add: HTTPClient_init_def)
qed

theorem scrape_url_fresh_client_no_wait_witness:
  "delay slow_config \<le> now after_first_url
   \<and> Request_raises env_down ''https://example.org'' = None
   \<and> 0 < max_retries slow_config
   \<and> now after_first_url - 1000 < delay slow_config
   \<and> (\<exists>rest. trace (snd (scrape_url env_down ''https://example.org'' slow_config
                             after_first_url)) =
          Sent ''https://example.com'' 1000 # Sent ''https://example.org'' 1005 # rest)"
proof -
  have h1: "delay slow_config \<le> now after_first_url"
    by (simp add: slow_config_def after_first_url_def)
  have h2: "Request_raises env_down ''https://example.org'' = None"
    by (simp add: env_down_def)
  have h3: "0 < max_retries slow_config"
    by (simp add: slow_config_def main_config_def)
  have h4: "now after_first_url - 1000 < delay slow_config"
    by (simp add: slow_config_def after_first_url_def)
  have "\<exists>rest. trace (snd (scrape_url env_down ''https://example.org'' slow_config
                             after_first_url)) =
          trace after_first_url @ Sent ''https://example.org'' (now after_first_url) # rest"
    using scrape_url_fresh_client_no_wait [OF h1 h2 h3] by blast
  then have "\<exists>rest. trace (snd (scrape_url env_down ''https://example.org'' slow_config
                             after_first_url)) =
          Sent ''https://example.com'' 1000 # Sent ''https://example.org'' 1005 # rest"
    by (simp add: after_first_url_def)
  then show ?thesis
    using h1 h2 h3 h4 by blast
qed

subsection \<open>The orchestration loop\<close>

lemma scrape_url_url: "url (fst (scrape_url e u cfg w)) = u"
  by (simp add: scrape_url_def Let_def on_exception_def split: prod.splits sum.splits)

lemma scrape_all_urls: "map url (fst (scrape_all e cfg us acc w)) = map url acc @ us"
proof (induction us arbitrary: acc w)
  case Nil
  show ?case by simp
next
  case (Cons u us)
  obtain r w1 where s: "scrape_url e u cfg w = (r, w1)"
    by (cases "scrape_url e u cfg w")
  have "url r = u"
    using scrape_url_url [of e u cfg w] s by simp
  then show ?case
    using Cons.IH s by simp
qed

text \<open>
  C1. For every list of URLs, every configuration, every environment and every world, the
  loop of \<open>main\<close> returns as many results as there are URLs, and the URLs of the results
  are the input URLs in the input order. Nothing is assumed about which attempts fail.
\<close>

theorem scrape_all_one_per_url:
  "length (fst (scrape_all e cfg us [] w)) = length us \<and>
   map url (fst (scrape_all e cfg us [] w)) = us"
proof -
  have m: "map url (fst (scrape_all e cfg us [] w)) = us"
    using scrape_all_urls [of e cfg us "[]" w] by simp
  have "length (fst (scrape_all e cfg us [] w)) =
        length (map url (fst (scrape_all e cfg us [] w)))"
    by simp
  also have "\<dots> = length us"
    by (simp only: m)
  finally show ?thesis
    using m by blast
qed

text \<open>
  C5. The claim is that exactly one of \<open>data\<close> and \<open>error\<close> is set, \<open>data\<close> after a
  successful pipeline and \<open>error\<close> after a failure. The code keeps the first half and
  breaks the second: when \<open>fetch\<close> raises, the result has the error and no data, as
  claimed; when \<open>fetch\<close> returns a page, the extraction raises on its \<open>bytes\<close> (the defect
  of C3), so the result has status 200, the \<open>TypeError\<close> as error and no data. No call of
  \<open>scrape_url\<close> ever sets \<open>data\<close>. On the flaky network the page arrives at the second
  attempt and is lost in this way.
\<close>

theorem scrape_url_fetched_page_has_no_data:
  "(case fst (fetch e (HTTPClient_init cfg) u w) of
      Inl x \<Rightarrow>
        fst (scrape_url e u cfg w) =
          \<lparr>url = u, status = None, data = None, error = Some (str_exn x)\<rparr>
    | Inr html \<Rightarrow>
        fst (scrape_url e u cfg w) =
          \<lparr>url = u, status = Some 200, data = None, error = Some (str_exn bytes_type_error)\<rparr>)
   \<and> data (fst (scrape_url e u cfg w)) = None
   \<and> fst (scrape_url env_flaky ''https://good.example'' main_config start_world) =
       \<lparr>url = ''https://good.example'', status = Some 200, data = None,
        error = Some (str_exn bytes_type_error)\<rparr>"
proof -
  have x: "DataExtractor_extract e (Bytes b) rules = Inl bytes_type_error" for e b rules
    by (simp add: DataExtractor_extract_def feed_def)
  have shape: "(case fst (fetch e (HTTPClient_init cfg) u w) of
      Inl x \<Rightarrow>
        fst (scrape_url e u cfg w) =
          \<lparr>url = u, status = None, data = None, error = Some (str_exn x)\<rparr>
    | Inr html \<Rightarrow>
        fst (scrape_url e u cfg w) =
          \<lparr>url = u, status = Some 200, data = None, error = Some (str_exn bytes_type_error)\<rparr>)"
    for e cfg u w
    by (simp add: scrape_url_def Let_def on_exception_def x split: prod.splits sum.splits)
  have nodata: "data (fst (scrape_url e u cfg w)) = None" for e cfg u w
    using shape [where e = e and cfg = cfg and u = u and w = w]
    by (cases "fst (fetch e (HTTPClient_init cfg) u w)") simp_all
  have c: "config (HTTPClient_init main_config) = main_config"
    by (simp add: HTTPClient_init_def)
  have h1: "Request_raises env_flaky ''https://good.example'' = None"
    by (simp add: env_flaky_def env_down_def)
  have h2: "int 1 < max_retries main_config"
    by (simp add: main_config_def)
  have h3: "\<forall>m < 1. fails_retriably env_flaky main_config ''https://good.example''
              (length (requests start_world) + m)"
    by (simp add: fails_retriably_def attempt_outcome_def env_flaky_def env_down_def
        requests_def start_world_def)
  obtain c1 w1 tr t where
    f: "fetch env_flaky (HTTPClient_init main_config) ''https://good.example'' start_world =
           (case attempt_outcome env_flaky main_config ''https://good.example''
                   (length (requests start_world) + 1) of
              Response b \<Rightarrow> (Inr b, c1, w1)
            | Fails x \<Rightarrow>
                if retriable x then
                  if int 1 = max_retries main_config - 1
                  then (Inl (Raise Exception
                          (''Failed after '' @ str_int (max_retries main_config)
                             @ '' attempts: '' @ str_exn x)), c1, w1)
                  else fetch_loop env_flaky (Request_init main_config ''https://good.example'')
                         [Suc 1 ..< nat (max_retries main_config)] c1
                         (sleep env_flaky (2 ^ 1) w1)
                else (Inl x, c1, w1))"
    by (rule fetch_after_retries [OF h1 c h2 h3]) (rule that, assumption+)
  have o: "attempt_outcome env_flaky main_config ''https://good.example''
             (length (requests start_world) + 1) = Response hello_page"
    by (simp add: attempt_outcome_def env_flaky_def env_down_def requests_def start_world_def)
  have f': "fst (fetch env_flaky (HTTPClient_init main_config) ''https://good.example''
                   start_world) = Inr hello_page"
    using f o by simp
  have conc: "fst (scrape_url env_flaky ''https://good.example'' main_config start_world) =
       \<lparr>url = ''https://good.example'', status = Some 200, data = None,
        error = Some (str_exn bytes_type_error)\<rparr>"
    using shape [where e = env_flaky and cfg = main_config and u = "''https://good.example''"
                   and w = start_world] f'
    by simp
  show ?thesis
    using shape [where e = e and cfg = cfg and u = u and w = w]
      nodata [where e = e and cfg = cfg and u = u and w = w] conc
    by blast
qed

subsection \<open>The extractor\<close>

text \<open>
  C3. The claim is that \<open>DataExtractor.extract\<close> never raises. On a \<open>str\<close> it returns
  the record that the handlers have built from the callbacks, unless the base parser
  itself raises. But it raises on every document that \<open>scrape_url\<close> hands to it: \<open>fetch\<close>
  returns \<open>bytes\<close>, and feeding \<open>bytes\<close> to the parser is a \<open>TypeError\<close>. So a page that was
  fetched without any failure ends as a result with status 200, no data and that error.
\<close>

theorem extract_raises_on_fetched_bytes:
  "DataExtractor_extract e (Bytes b) rules = Inl bytes_type_error
   \<and> DataExtractor_extract e (Str s) rules =
       (case tokens e s of
          (evs, None) \<Rightarrow>
            Inr (get_extracted_data (foldl (\<lambda>q ev. callback ev q) HTMLParser_init evs))
        | (evs, Some x) \<Rightarrow> Inl x)
   \<and> fst (scrape_url env_up ''https://example.com'' main_config start_world) =
       \<lparr>url = ''https://example.com'', status = Some 200, data = None,
        error = Some (str_exn bytes_type_error)\<rparr>"
proof -
  have x: "DataExtractor_extract e (Bytes b) rules = Inl bytes_type_error" for e b rules
    by (simp add: DataExtractor_extract_def feed_def)
  have c: "config (HTTPClient_init main_config) = main_config"
    by (simp add: HTTPClient_init_def)
  have h1: "Request_raises env_up ''https://example.com'' = None"
    by (simp add: env_up_def env_down_def)
  have h2: "int 0 < max_retries main_config"
    by (simp add: main_config_def)
  have h3: "\<forall>m < 0. fails_retriably env_up main_config ''https://example.com''
              (length (requests start_world) + m)"
    by simp
  obtain c1 w1 tr t where
    f: "fetch env_up (HTTPClient_init main_config) ''https://example.com'' start_world =
           (case attempt_outcome env_up main_config ''https://example.com''
                   (length (requests start_world) + 0) of
              Response b \<Rightarrow> (Inr b, c1, w1)
            | Fails x \<Rightarrow>
                if retriable x then
                  if int 0 = max_retries main_config - 1
                  then (Inl (Raise Exception
                          (''Failed after '' @ str_int (max_retries main_config)
                             @ '' attempts: '' @ str_exn x)), c1, w1)
                  else fetch_loop env_up (Request_init main_config ''https://example.com'')
                         [Suc 0 ..< nat (max_retries main_config)] c1
                         (sleep env_up (2 ^ 0) w1)
                else (Inl x, c1, w1))"
    by (rule fetch_after_retries [OF h1 c h2 h3]) (rule that, assumption+)
  have o: "attempt_outcome env_up main_config ''https://example.com''
             (length (requests start_world) + 0) = Response hello_page"
    by (simp add: attempt_outcome_def env_up_def env_down_def)
  have f': "fetch env_up (HTTPClient_init main_config) ''https://example.com'' start_world =
              (Inr hello_page, c1, w1)"
    using f o by simp
  have "fst (scrape_url env_up ''https://example.com'' main_config start_world) =
       \<lparr>url = ''https://example.com'', status = Some 200, data = None,
        error = Some (str_exn bytes_type_error)\<rparr>"
    by (simp add: scrape_url_def f' x on_exception_def)
  then show ?thesis
    using x by (simp add: DataExtractor_extract_def feed_def split: prod.splits option.splits)
qed

text \<open>
  C4. The claim is that text after the closing tag of the title does not change the
  title. It does: the text of the last start tag stays \<open><title>\<close> until the next start tag,
  so every text event up to there overwrites the title. On \<open>title_page\<close> the line break
  after \<open></title>\<close> replaces the title \<open>Hi\<close> by the empty string; on
  \<open><title>Hi</title>bye\<close> the title ends as \<open>bye\<close>.
\<close>

theorem title_overwritten_after_closing_tag:
  "DataExtractor_extract env_page (Str title_page) []
     = Inr \<lparr>title = '''', links = [], meta = []\<rparr>
   \<and> title (get_extracted_data
         (foldl (\<lambda>q ev. callback ev q) HTMLParser_init
            [StartTag ''<title>'' ''title'' [], Data ''Hi''])) = ''Hi''
   \<and> title (get_extracted_data
         (foldl (\<lambda>q ev. callback ev q) HTMLParser_init
            [StartTag ''<title>'' ''title'' [], Data ''Hi'', EndTag ''title'', Data ''bye'']))
       = ''bye''"
  by (simp add: DataExtractor_extract_def feed_def env_page_def env_down_def title_page_events_def
      HTMLParser_init_def handle_starttag_def handle_data_def get_extracted_data_def
      strip_def isspace_def)

subsection \<open>The result sink\<close>

text \<open>
  C7. When the output format is neither \<open>json\<close> nor \<open>csv\<close>, \<open>save_results\<close> raises the
  \<open>ValueError\<close> for an unsupported format and leaves the world as it was: no file is
  opened, truncated or written.
\<close>

theorem save_results_unsupported_format:
  assumes "output_format cfg \<noteq> ''json''" and "output_format cfg \<noteq> ''csv''"
  shows "ResultHandler_save_results e results cfg w =
           (Some (Raise ValueError (''Unsupported output format: '' @ output_format cfg)), w)"
  using assms by (simp add: ResultHandler_save_results_def)

theorem save_results_unsupported_format_witness:
  "output_format (main_config\<lparr>output_format := ''xml''\<rparr>) \<noteq> ''json'' \<and>
   output_format (main_config\<lparr>output_format := ''xml''\<rparr>) \<noteq> ''csv'' \<and>
   ResultHandler_save_results env_down [] (main_config\<lparr>output_format := ''xml''\<rparr>) start_world =
     (Some (Raise ValueError ''Unsupported output format: xml''), start_world)"
  using save_results_unsupported_format
          [of "main_config\<lparr>output_format := ''xml''\<rparr>" env_down "[]" start_world]
  by simp

lemma str_items_all_str:
  "None \<notin> set xs \<Longrightarrow>
   str_items i xs = Inr (concat (map (\<lambda>l. case l of None \<Rightarrow> [] | Some s \<Rightarrow> [s]) xs))"
proof (induction xs arbitrary: i)
  case Nil
  show ?case by simp
next
  case (Cons x xs)
  then obtain s where x: "x = Some s"
    by (cases x) auto
  have "None \<notin> set xs"
    using Cons.prems by simp
  then show ?case
    using Cons.IH [of "Suc i"] x by simp
qed

lemma csv_row_spec:
  assumes "\<forall>d. data r = Some d \<longrightarrow> None \<notin> set (links d)"
  shows "csv_row r = Inr (spec_csv_row r)"
proof (cases "data r")
  case None
  then show ?thesis
    by (simp add: csv_row_def spec_csv_row_def truthy_def split: option.splits)
next
  case (Some d)
  then have "None \<notin> set (links d)"
    using assms by simp
  then have "join '', '' (links d) =
     Inr (intercalate '', '' (concat (map (\<lambda>l. case l of None \<Rightarrow> [] | Some s \<Rightarrow> [s]) (links d))))"
    by (simp add: join_def str_items_all_str)
  then show ?thesis
    using Some by (simp add: csv_row_def spec_csv_row_def truthy_def split: option.splits)
qed

lemma write_rows_spec:
  assumes "\<forall>r \<in> set rs. \<forall>d. data r = Some d \<longrightarrow> None \<notin> set (links d)"
    and "files w path = Some old"
  shows "write_rows path rs w =
           (None, w\<lparr>files := (files w)(path \<mapsto> old @ map (\<lambda>r. CsvRow (spec_csv_row r)) rs)\<rparr>)"
  using assms
proof (induction rs arbitrary: w old)
  case Nil
  then have "(files w)(path \<mapsto> old) = files w"
    by (simp add: fun_upd_idem)
  then show ?case by simp
next
  case (Cons r rs)
  have row: "csv_row r = Inr (spec_csv_row r)"
    using Cons.prems(1) csv_row_spec [of r] by simp
  let ?w1 = "write_file path (CsvRow (spec_csv_row r)) w"
  have w1: "?w1 = w\<lparr>files := (files w)(path \<mapsto> old @ [CsvRow (spec_csv_row r)])\<rparr>"
    using Cons.prems(2) by (simp add: write_file_def)
  have f1: "files ?w1 path = Some (old @ [CsvRow (spec_csv_row r)])"
    by (simp add: w1)
  have rest: "\<forall>r \<in> set rs. \<forall>d. data r = Some d \<longrightarrow> None \<notin> set (links d)"
    using Cons.prems(1) by simp
  have step: "write_rows path (r # rs) w = write_rows path rs ?w1"
    using row by simp
  have ih: "write_rows path rs ?w1 =
          (None, ?w1\<lparr>files := (files ?w1)(path \<mapsto>
                   (old @ [CsvRow (spec_csv_row r)]) @ map (\<lambda>r. CsvRow (spec_csv_row r)) rs)\<rparr>)"
    using Cons.IH [OF rest f1] .
  have same: "?w1\<lparr>files := (files ?w1)(path \<mapsto>
                   (old @ [CsvRow (spec_csv_row r)]) @ map (\<lambda>r. CsvRow (spec_csv_row r)) rs)\<rparr>
        = w\<lparr>files := (files w)(path \<mapsto>
                   old @ map (\<lambda>r. CsvRow (spec_csv_row r)) (r # rs))\<rparr>"
    unfolding w1 by simp
  show ?case
    unfolding step ih same ..
qed

text \<open>
  C6. With the format \<open>csv\<close>, a destination that can be opened and records whose links are
  strings (the annotated \<open>List[str]\<close>), \<open>save_results\<close> raises nothing and leaves in the
  destination the header row \<open>URL, Status, Title, Links, Error\<close> followed by one row per
  result, in order, each as the specification words it.
\<close>

theorem save_results_csv_rows:
  assumes "output_format cfg = ''csv''"
    and "open_raises e (output_path cfg) = None"
    and "\<forall>r \<in> set results. \<forall>d. data r = Some d \<longrightarrow> None \<notin> set (links d)"
  shows "ResultHandler_save_results e results cfg w =
           (None, w\<lparr>files := (files w)(output_path cfg \<mapsto>
              CsvRow [CellStr ''URL'', CellStr ''Status'', CellStr ''Title'', CellStr ''Links'',
                      CellStr ''Error'']
              # map (\<lambda>r. CsvRow (spec_csv_row r)) results)\<rparr>)"
proof -
  let ?p = "output_path cfg"
  let ?w0 = "w\<lparr>files := (files w)(?p \<mapsto> [])\<rparr>"
  let ?w1 = "write_file ?p (CsvRow csv_header) ?w0"
  have o: "open_w e ?p w = Inr ?w0"
    using assms(2) by (simp add: open_w_def)
  have w1: "?w1 = w\<lparr>files := (files w)(?p \<mapsto> [CsvRow csv_header])\<rparr>"
    by (simp add: write_file_def)
  have f1: "files ?w1 ?p = Some [CsvRow csv_header]"
    by (simp add: w1)
  have "write_rows ?p results ?w1 =
          (None, ?w1\<lparr>files := (files ?w1)(?p \<mapsto>
                   [CsvRow csv_header] @ map (\<lambda>r. CsvRow (spec_csv_row r)) results)\<rparr>)"
    using write_rows_spec [OF assms(3) f1] .
  then have "write_rows ?p results ?w1 =
          (None, w\<lparr>files := (files w)(?p \<mapsto>
                   CsvRow csv_header # map (\<lambda>r. CsvRow (spec_csv_row r)) results)\<rparr>)"
    by (simp add: w1)
  then show ?thesis
    using assms(1) o by (simp add: ResultHandler_save_results_def csv_header_def)
qed

theorem save_results_csv_rows_witness:
  "output_format csv_config = ''csv''
   \<and> open_raises env_down (output_path csv_config) = None
   \<and> map (map_option links \<circ> data) example_results = [Some [Some ''/a'', Some ''/b''], None]
   \<and> fst (ResultHandler_save_results env_down example_results csv_config start_world) = None
   \<and> files (snd (ResultHandler_save_results env_down example_results csv_config start_world))
        ''results.csv'' =
       Some [CsvRow [CellStr ''URL'', CellStr ''Status'', CellStr ''Title'', CellStr ''Links'',
                     CellStr ''Error''],
             CsvRow [CellStr ''https://good.example'', CellInt 200, CellStr ''Hi'',
                     CellStr ''/a, /b'', CellStr ''''],
             CsvRow [CellStr ''https://bad.example'', CellNone, CellStr '''', CellStr '''',
                     CellStr ''Failed after 2 attempts: <urlopen error timed out>'']]"
proof -
  have h1: "output_format csv_config = ''csv''"
    by (simp add: csv_config_def)
  have h2: "open_raises env_down (output_path csv_config) = None"
    by (simp add: env_down_def)
  have h3: "\<forall>r \<in> set example_results. \<forall>d. data r = Some d \<longrightarrow> None \<notin> set (links d)"
    by (auto simp: example_results_def)
  have p: "output_path csv_config = ''results.csv''"
    by (simp add: csv_config_def)
  have rows: "map (\<lambda>r. CsvRow (spec_csv_row r)) example_results =
            [CsvRow [CellStr ''https://good.example'', CellInt 200, CellStr ''Hi'',
                     CellStr ''/a, /b'', CellStr ''''],
             CsvRow [CellStr ''https://bad.example'', CellNone, CellStr '''', CellStr '''',
                     CellStr ''Failed after 2 attempts: <urlopen error timed out>'']]"
    by (simp add: example_results_def spec_csv_row_def)
  have h3': "map (map_option links \<circ> data) example_results
               = [Some [Some ''/a'', Some ''/b''], None]"
    by (simp add: example_results_def)
  show ?thesis
    using save_results_csv_rows [OF h1 h2 h3, of start_world] h1 h2 h3'
    by (simp add: p rows)
qed

end
